theory Spec2Isabelle
  imports Complex_Main
begin

section \<open>JavaScript numbers\<close>

text \<open>
  \<^verbatim>\<open>src/App.tsx\<close> computes with JavaScript numbers. A number is modelled as a real
  or one of the three special values of IEEE-754 arithmetic that the component can
  reach: the initial \<^verbatim>\<open>Infinity\<close> / \<^verbatim>\<open>-Infinity\<close> of the running
  minimum and maximum, and \<^verbatim>\<open>NaN\<close> from \<^verbatim>\<open>0/0\<close> or
  \<^verbatim>\<open>Infinity - Infinity\<close>. Finite values are exact reals: rounding (also the
  rounding of a store into a \<^verbatim>\<open>Float32Array\<close>), overflow of finite results and the
  sign of zero are not modelled.
\<close>

datatype jsnum = NaN | NegInf | Fin real | PosInf

fun js_neg :: "jsnum \<Rightarrow> jsnum" where
  "js_neg NaN = NaN"
| "js_neg NegInf = PosInf"
| "js_neg PosInf = NegInf"
| "js_neg (Fin a) = Fin (- a)"

fun js_add :: "jsnum \<Rightarrow> jsnum \<Rightarrow> jsnum" where
  "js_add NaN _ = NaN"
| "js_add _ NaN = NaN"
| "js_add (Fin a) (Fin b) = Fin (a + b)"
| "js_add PosInf NegInf = NaN"
| "js_add NegInf PosInf = NaN"
| "js_add PosInf _ = PosInf"
| "js_add NegInf _ = NegInf"
| "js_add (Fin a) b = b"

definition js_sub :: "jsnum \<Rightarrow> jsnum \<Rightarrow> jsnum" where
  "js_sub a b = js_add a (js_neg b)"

text \<open>The sign of a number: \<open>-1\<close>, \<open>0\<close> or \<open>1\<close>; \<^verbatim>\<open>NaN\<close> has none.\<close>

fun js_sign :: "jsnum \<Rightarrow> int" where
  "js_sign NaN = 0"
| "js_sign NegInf = - 1"
| "js_sign PosInf = 1"
| "js_sign (Fin a) = (if a < 0 then - 1 else if a = 0 then 0 else 1)"

definition signed_inf :: "int \<Rightarrow> jsnum" where
  "signed_inf s = (if s < 0 then NegInf else if s = 0 then NaN else PosInf)"

fun js_mul :: "jsnum \<Rightarrow> jsnum \<Rightarrow> jsnum" where
  "js_mul NaN _ = NaN"
| "js_mul _ NaN = NaN"
| "js_mul (Fin a) (Fin b) = Fin (a * b)"
| "js_mul a b = signed_inf (js_sign a * js_sign b)"

text \<open>
  Division: a finite non-zero number divided by zero is an infinity (the zero is taken
  as positive), \<^verbatim>\<open>0/0\<close> and \<^verbatim>\<open>Infinity/Infinity\<close> are \<^verbatim>\<open>NaN\<close>, a finite number
  divided by an infinity is zero.
\<close>

fun js_div :: "jsnum \<Rightarrow> jsnum \<Rightarrow> jsnum" where
  "js_div NaN _ = NaN"
| "js_div _ NaN = NaN"
| "js_div (Fin a) (Fin b) = (if b = 0 then signed_inf (js_sign (Fin a)) else Fin (a / b))"
| "js_div (Fin a) _ = Fin 0"
| "js_div a (Fin b) = signed_inf (js_sign a * (if b < 0 then - 1 else 1))"
| "js_div _ _ = NaN"

text \<open>\<^verbatim>\<open>a < b\<close>: false as soon as one side is \<^verbatim>\<open>NaN\<close>.\<close>

fun js_lt :: "jsnum \<Rightarrow> jsnum \<Rightarrow> bool" where
  "js_lt NaN _ = False"
| "js_lt _ NaN = False"
| "js_lt (Fin a) (Fin b) = (a < b)"
| "js_lt NegInf b = (b \<noteq> NegInf)"
| "js_lt a PosInf = (a \<noteq> PosInf)"
| "js_lt _ _ = False"

text \<open>\<^verbatim>\<open>a !== b\<close> on numbers: \<^verbatim>\<open>NaN\<close> differs from everything, itself included.\<close>

definition js_strict_neq :: "jsnum \<Rightarrow> jsnum \<Rightarrow> bool" where
  "js_strict_neq a b = (a = NaN \<or> b = NaN \<or> a \<noteq> b)"

text \<open>\<^verbatim>\<open>Math.min\<close> and \<^verbatim>\<open>Math.max\<close> of two numbers: \<^verbatim>\<open>NaN\<close> if one of them is.\<close>

definition Math_min :: "jsnum \<Rightarrow> jsnum \<Rightarrow> jsnum" where
  "Math_min a b = (if a = NaN \<or> b = NaN then NaN else if js_lt b a then b else a)"

definition Math_max :: "jsnum \<Rightarrow> jsnum \<Rightarrow> jsnum" where
  "Math_max a b = (if a = NaN \<or> b = NaN then NaN else if js_lt a b then b else a)"

fun isFinite :: "jsnum \<Rightarrow> bool" where
  "isFinite (Fin _) = True"
| "isFinite _ = False"

text \<open>
  \<^verbatim>\<open>Math.E\<close> and \<^verbatim>\<open>Math.PI\<close> are the doubles nearest to \<open>e\<close> and \<open>\<pi>\<close>,
  written here with the digits that JavaScript prints for them.
\<close>

definition Math_E :: jsnum where
  "Math_E = Fin 2.718281828459045"

definition Math_PI :: jsnum where
  "Math_PI = Fin 3.141592653589793"

section \<open>The evaluator\<close>

text \<open>
  \<^verbatim>\<open>evaluate(expression, scope)\<close> is imported from mathjs. The component depends only on
  whether a call throws or returns, and on the number returned, so the evaluator is a
  parameter of the model: a function from the expression and the scope (the object
  literal of the call, as an association list) to an outcome. What \<^verbatim>\<open>isFinite\<close>,
  \<^verbatim>\<open>Math.min\<close> and \<^verbatim>\<open>Math.max\<close> make of a returned value that is not a
  number (its conversion to a number) is part of the outcome.
\<close>

datatype eval_result = Throws | Returns jsnum

type_synonym scope = "(string \<times> jsnum) list"

type_synonym evaluator = "string \<Rightarrow> scope \<Rightarrow> eval_result"

text \<open>\<^verbatim>\<open>{ x, e: Math.E, pi: Math.PI }\<close> and \<^verbatim>\<open>{ x, y, e: Math.E, pi: Math.PI }\<close>.\<close>

definition scope2d :: "jsnum \<Rightarrow> scope" where
  "scope2d x = [(''x'', x), (''e'', Math_E), (''pi'', Math_PI)]"

definition scope3d :: "jsnum \<Rightarrow> jsnum \<Rightarrow> scope" where
  "scope3d x y = [(''x'', x), (''y'', y), (''e'', Math_E), (''pi'', Math_PI)]"

section \<open>MathSurface\<close>

datatype mode = Mode2d | Mode3d

text \<open>
  A vertex is one triple of the \<^verbatim>\<open>positions\<close> array together with the triple of the
  \<^verbatim>\<open>colors\<close> array at the same offset. Iteration \<open>i\<close> of each loop writes the
  offsets \<open>3i\<close>, \<open>3i+1\<close>, \<open>3i+2\<close> and no other, so the two arrays are the list of
  vertices in loop order.
\<close>

record vertex =
  px :: jsnum
  py :: jsnum
  pz :: jsnum
  cr :: jsnum
  cg :: jsnum
  cb :: jsnum

text \<open>\<^verbatim>\<open>const size = 6\<close>: the half-width of the sampled domain.\<close>

definition size_const :: real where
  "size_const = 6"

text \<open>
  \<^verbatim>\<open>isFinite(y) ? Math.max(-10, Math.min(10, y)) : 0\<close> (lines 30 and 70).
\<close>

definition clampValue :: "jsnum \<Rightarrow> jsnum" where
  "clampValue y = (if isFinite y then Math_max (Fin (- 10)) (Math_min (Fin 10) y) else Fin 0)"

subsection \<open>The curve (mode 2d)\<close>

text \<open>\<^verbatim>\<open>const x = -size + (i / (points - 1)) * (size * 2)\<close>\<close>

definition curve_x :: "nat \<Rightarrow> nat \<Rightarrow> jsnum" where
  "curve_x points i =
     js_add (Fin (- size_const))
       (js_mul (js_div (Fin (real i)) (Fin (real_of_int (int points - 1)))) (Fin (size_const * 2)))"

text \<open>
  The body of the loop at lines 25 to 43. Both typed arrays start filled with zeros;
  the \<^verbatim>\<open>catch\<close> block writes the position only, so the color of that vertex keeps
  the three zeros.
\<close>

definition curve_vertex :: "evaluator \<Rightarrow> string \<Rightarrow> nat \<Rightarrow> nat \<Rightarrow> vertex" where
  "curve_vertex ev equation points i =
     (let x = curve_x points i in
      case ev equation (scope2d x) of
        Returns y \<Rightarrow>
          (let y' = clampValue y;
               normalizedY = js_div (js_add y' (Fin size_const)) (Fin (size_const * 2))
           in \<lparr> px = x, py = y', pz = Fin 0,
                cr = js_add (Fin 0.2) (js_mul normalizedY (Fin 0.8)),
                cg = js_add (Fin 0.2) (js_mul (js_sub (Fin 1) normalizedY) (Fin 0.8)),
                cb = Fin 0.2 \<rparr>)
      | Throws \<Rightarrow>
          \<lparr> px = x, py = Fin 0, pz = Fin 0, cr = Fin 0, cg = Fin 0, cb = Fin 0 \<rparr>)"

text \<open>\<^verbatim>\<open>for (let i = 0; i < points; i++)\<close> with \<^verbatim>\<open>points = resolution\<close>.\<close>

definition curve :: "evaluator \<Rightarrow> string \<Rightarrow> nat \<Rightarrow> vertex list" where
  "curve ev equation resolution = map (curve_vertex ev equation resolution) [0..<resolution]"

subsection \<open>The surface (mode 3d)\<close>

text \<open>
  Modelled from the spec: the vertex grid of \<^verbatim>\<open>THREE.PlaneGeometry(width, height,
  widthSegments, heightSegments)\<close>, a constructor of the three.js library, which is not part
  of the sources. The spec (4.1) describes a row-major grid with the same linear spacing
  per axis, spanning the plane's extent in both axes with the end points included. The
  library builds it row by row, \<open>gridY + 1\<close> rows of \<open>gridX + 1\<close> vertices, with
  \<^verbatim>\<open>x = ix * segment_width - width_half\<close> and \<^verbatim>\<open>y = -(iy * segment_height -
  height_half)\<close>, so the first row is the one with the largest \<open>y\<close>. Only the
  \<open>x\<close> and \<open>y\<close> of each vertex are kept here; the library sets \<open>z\<close> to zero.
\<close>

definition PlaneGeometry :: "real \<Rightarrow> real \<Rightarrow> int \<Rightarrow> int \<Rightarrow> (jsnum \<times> jsnum) list" where
  "PlaneGeometry width height widthSegments heightSegments =
     (let width_half = Fin (width / 2);
          height_half = Fin (height / 2);
          gridX = widthSegments;
          gridY = heightSegments;
          gridX1 = gridX + 1;
          gridY1 = gridY + 1;
          segment_width = js_div (Fin width) (Fin (real_of_int gridX));
          segment_height = js_div (Fin height) (Fin (real_of_int gridY))
      in concat (map (\<lambda>iy.
           (let y = js_sub (js_mul (Fin (real iy)) segment_height) height_half
            in map (\<lambda>ix.
                 (let x = js_sub (js_mul (Fin (real ix)) segment_width) width_half
                  in (x, js_neg y)))
               [0..<nat gridX1]))
           [0..<nat gridY1]))"

text \<open>
  The state of the first loop (lines 60 to 77): the running minimum and maximum and the
  values pushed so far.
\<close>

record sampling =
  minZ :: jsnum
  maxZ :: jsnum
  zValues :: "jsnum list"

definition sampling_init :: sampling where
  "sampling_init = \<lparr> minZ = PosInf, maxZ = NegInf, zValues = [] \<rparr>"

text \<open>
  One iteration of the first loop. The \<^verbatim>\<open>catch\<close> block pushes \<open>0\<close> and leaves
  \<^verbatim>\<open>minZ\<close> and \<^verbatim>\<open>maxZ\<close> as they are.
\<close>

definition sample_step :: "evaluator \<Rightarrow> string \<Rightarrow> jsnum \<times> jsnum \<Rightarrow> sampling \<Rightarrow> sampling" where
  "sample_step ev equation p st =
     (case ev equation (scope3d (fst p) (snd p)) of
        Returns z \<Rightarrow>
          (let zValue = clampValue z
           in \<lparr> minZ = Math_min (minZ st) zValue,
                maxZ = Math_max (maxZ st) zValue,
                zValues = zValues st @ [zValue] \<rparr>)
      | Throws \<Rightarrow> st \<lparr> zValues := zValues st @ [Fin 0] \<rparr>)"

fun sample_loop :: "evaluator \<Rightarrow> string \<Rightarrow> (jsnum \<times> jsnum) list \<Rightarrow> sampling \<Rightarrow> sampling" where
  "sample_loop ev equation [] st = st"
| "sample_loop ev equation (p # ps) st = sample_loop ev equation ps (sample_step ev equation p st)"

text \<open>
  \<^verbatim>\<open>maxZ !== minZ ? (zValue - minZ) / (maxZ - minZ) : 0.5\<close> (line 83).
\<close>

definition normalizedHeight :: "jsnum \<Rightarrow> jsnum \<Rightarrow> jsnum \<Rightarrow> jsnum" where
  "normalizedHeight lo hi zValue =
     (if js_strict_neq hi lo then js_div (js_sub zValue lo) (js_sub hi lo) else Fin 0.5)"

text \<open>The three bands of lines 85 to 100, as the triple written to \<^verbatim>\<open>colors\<close>.\<close>

definition height_color :: "jsnum \<Rightarrow> jsnum \<times> jsnum \<times> jsnum" where
  "height_color h =
     (if js_lt h (Fin 0.33) then
        (let t = js_div h (Fin 0.33)
         in (js_add (Fin 0) (js_mul t (Fin 0.4)),
             js_add (Fin 0.4) (js_mul t (Fin 0.6)),
             Fin 0.9))
      else if js_lt h (Fin 0.66) then
        (let t = js_div (js_sub h (Fin 0.33)) (Fin 0.33)
         in (js_add (Fin 0.4) (js_mul t (Fin 0.5)),
             Fin 0.9,
             js_sub (Fin 0.9) (js_mul t (Fin 0.6))))
      else
        (let t = js_div (js_sub h (Fin 0.66)) (Fin 0.34)
         in (Fin 0.9,
             js_sub (Fin 0.9) (js_mul t (Fin 0.6)),
             js_sub (Fin 0.3) (js_mul t (Fin 0.2)))))"

text \<open>
  One iteration of the second loop (lines 79 to 101), for the vertex number \<open>k\<close>
  (the source's \<open>i / 3\<close>).
\<close>

definition surface_vertex :: "(jsnum \<times> jsnum) list \<Rightarrow> sampling \<Rightarrow> nat \<Rightarrow> vertex" where
  "surface_vertex positions st k =
     (let zValue = zValues st ! k;
          h = normalizedHeight (minZ st) (maxZ st) zValue;
          c = height_color h
      in \<lparr> px = fst (positions ! k), py = snd (positions ! k), pz = zValue,
           cr = fst c, cg = fst (snd c), cb = snd (snd c) \<rparr>)"

definition surface_of :: "evaluator \<Rightarrow> string \<Rightarrow> (jsnum \<times> jsnum) list \<Rightarrow> vertex list" where
  "surface_of ev equation positions =
     (let st = sample_loop ev equation positions sampling_init
      in map (surface_vertex positions st) [0..<length positions])"

text \<open>
  \<^verbatim>\<open>new THREE.PlaneGeometry(size * 2, size * 2, resolution - 1, resolution - 1)\<close>
\<close>

definition grid :: "nat \<Rightarrow> (jsnum \<times> jsnum) list" where
  "grid resolution =
     PlaneGeometry (size_const * 2) (size_const * 2) (int resolution - 1) (int resolution - 1)"

definition surface :: "evaluator \<Rightarrow> string \<Rightarrow> nat \<Rightarrow> vertex list" where
  "surface ev equation resolution = surface_of ev equation (grid resolution)"

text \<open>
  The vertices of the geometry that the component builds. \<open>resolution\<close> is a natural
  number: the slider of the page yields integers from 30 to 150.
\<close>

definition MathSurface :: "evaluator \<Rightarrow> string \<Rightarrow> nat \<Rightarrow> mode \<Rightarrow> vertex list" where
  "MathSurface ev equation resolution m =
     (if m = Mode2d then curve ev equation resolution else surface ev equation resolution)"

section \<open>App: committing an equation\<close>

record app =
  mode :: mode
  equation :: string
  inputValue :: string
  resolution :: nat
  error :: string
  showInfo :: bool

text \<open>
  \<^verbatim>\<open>handleEquationUpdate\<close> (lines 202 to 214): a trial evaluation of the input, whose
  value is dropped; only a throw matters.
\<close>

definition trial :: "evaluator \<Rightarrow> app \<Rightarrow> eval_result" where
  "trial ev s =
     (if mode s = Mode2d then ev (inputValue s) [(''x'', Fin 1), (''e'', Math_E), (''pi'', Math_PI)]
      else ev (inputValue s) [(''x'', Fin 1), (''y'', Fin 1), (''e'', Math_E), (''pi'', Math_PI)])"

definition handleEquationUpdate :: "evaluator \<Rightarrow> app \<Rightarrow> app" where
  "handleEquationUpdate ev s =
     (case trial ev s of
        Returns _ \<Rightarrow> s \<lparr> equation := inputValue s, error := [] \<rparr>
      | Throws \<Rightarrow> s \<lparr> error := ''Invalid equation syntax'' \<rparr>)"

text \<open>\<^verbatim>\<open>handlePresetSelect\<close> (lines 216 to 220).\<close>

definition handlePresetSelect :: "string \<Rightarrow> app \<Rightarrow> app" where
  "handlePresetSelect presetEquation s =
     s \<lparr> inputValue := presetEquation, equation := presetEquation, error := [] \<rparr>"

text \<open>
  The geometry shown: \<^verbatim>\<open><MathSurface equation={equation} resolution={resolution}
  mode={mode} />\<close>, recomputed from these three fields only.
\<close>

definition rendered :: "evaluator \<Rightarrow> app \<Rightarrow> vertex list" where
  "rendered ev s = MathSurface ev (equation s) (resolution s) (mode s)"

section \<open>Sample expressions\<close>

text \<open>
  What mathjs does on four expressions, for the concrete runs below: \<^verbatim>\<open>x^2\<close>;
  two conditionals whose untaken branch is never evaluated and whose other branch reads
  the undefined symbol \<^verbatim>\<open>q\<close>, which throws; and the unterminated \<^verbatim>\<open>sin(x\<close>,
  which throws while parsing. Every other expression is left as throwing.
\<close>

definition lookup_x :: "scope \<Rightarrow> jsnum" where
  "lookup_x sc = (case map_of sc ''x'' of Some v \<Rightarrow> v | None \<Rightarrow> NaN)"

definition evaluate_sample :: evaluator where
  "evaluate_sample expr sc =
     (if expr = ''x^2'' then Returns (js_mul (lookup_x sc) (lookup_x sc))
      else if expr = ''x > 0 ? 1 : q'' then
        (if js_lt (Fin 0) (lookup_x sc) then Returns (Fin 1) else Throws)
      else if expr = ''x == 1 ? 0 : q'' then
        (if lookup_x sc = Fin 1 then Returns (Fin 0) else Throws)
      else Throws)"

section \<open>Notions used in the statements\<close>

text \<open>
  The value that the first loop of the surface pushes for the grid point \<open>p\<close>, and
  the predicate "a color channel lies in \<open>[0,1]\<close>", which no special value satisfies.
\<close>

definition sample_value :: "evaluator \<Rightarrow> string \<Rightarrow> jsnum \<times> jsnum \<Rightarrow> jsnum" where
  "sample_value ev eq p =
     (case ev eq (scope3d (fst p) (snd p)) of Returns z \<Rightarrow> clampValue z | Throws \<Rightarrow> Fin 0)"

definition unit_interval :: "jsnum \<Rightarrow> bool" where
  "unit_interval c = (case c of Fin r \<Rightarrow> 0 \<le> r \<and> r \<le> 1 | _ \<Rightarrow> False)"

text \<open>
  The invariant of the first loop of the surface while no evaluation has thrown: either
  nothing has been pushed and the bounds are the initial infinities, or both bounds are
  finite and every pushed value is a finite number between them.
\<close>

definition tracked_bounds :: "sampling \<Rightarrow> bool" where
  "tracked_bounds st =
     ((zValues st = [] \<and> minZ st = PosInf \<and> maxZ st = NegInf)
      \<or> (\<exists>lo hi. minZ st = Fin lo \<and> maxZ st = Fin hi
            \<and> (\<forall>z\<in>set (zValues st). \<exists>r. z = Fin r \<and> lo \<le> r \<and> r \<le> hi)))"

section \<open>Basic facts\<close>

lemma clampValue_Fin: "clampValue (Fin v) = Fin (max (- 10) (min 10 v))"
  by (simp add: clampValue_def Math_min_def Math_max_def max_def min_def)

lemma clampValue_not_finite: "\<not> isFinite y \<Longrightarrow> clampValue y = Fin 0"
  by (simp add: clampValue_def)

lemma clampValue_range: "\<exists>r. clampValue y = Fin r \<and> - 10 \<le> r \<and> r \<le> 10"
  by (cases y) (simp_all add: clampValue_Fin clampValue_not_finite)

lemma length_curve: "length (curve ev eq n) = n"
  by (simp add: curve_def)

lemma nth_curve: "i < n \<Longrightarrow> curve ev eq n ! i = curve_vertex ev eq n i"
  by (simp add: curve_def)

lemma curve_x_Fin:
  assumes "2 \<le> n"
  shows "curve_x n i = Fin (- 6 + (real i / (real n - 1)) * 12)"
proof -
  from assms have "real_of_int (int n - 1) = real n - 1" by simp
  moreover from assms have "real n - 1 \<noteq> 0" by simp
  ultimately show ?thesis by (simp add: curve_x_def size_const_def)
qed

lemma px_curve_vertex: "px (curve_vertex ev eq n i) = curve_x n i"
  by (simp add: curve_vertex_def Let_def split: eval_result.split)

lemma py_curve_vertex:
  "py (curve_vertex ev eq n i) =
     (case ev eq (scope2d (curve_x n i)) of Returns y \<Rightarrow> clampValue y | Throws \<Rightarrow> Fin 0)"
  by (simp add: curve_vertex_def Let_def split: eval_result.split)

lemma concat_rows_length:
  "length (concat (map (\<lambda>r. map (f r) [0..<n]) [0..<m])) = m * n"
  by (induction m) simp_all

lemma concat_rows_nth:
  "r < m \<Longrightarrow> c < n \<Longrightarrow> concat (map (\<lambda>r. map (f r) [0..<n]) [0..<m]) ! (r * n + c) = f r c"
proof (induction m)
  case 0
  then show ?case by simp
next
  case (Suc m)
  show ?case
  proof (cases "r < m")
    case True
    then have "r * n + c < m * n"
      using Suc.prems(2)
      by (metis add.commute less_le_trans mult.commute mult_Suc_right mult_le_mono1 nat_add_left_cancel_less Suc_leI)
    with True Suc show ?thesis
      by (simp add: nth_append concat_rows_length)
  next
    case False
    with Suc.prems have "r = m" by simp
    with Suc.prems show ?thesis
      by (simp add: nth_append concat_rows_length)
  qed
qed

lemma concat_rows_set:
  "set (concat (map (\<lambda>r. map (f r) [0..<n]) [0..<m])) = {f r c | r c. r < m \<and> c < n}"
  by fastforce

lemma zValues_sample_step:
  "zValues (sample_step ev eq p st) = zValues st @ [sample_value ev eq p]"
  by (simp add: sample_step_def sample_value_def Let_def split: eval_result.split)

lemma zValues_sample_loop:
  "zValues (sample_loop ev eq ps st) = zValues st @ map (sample_value ev eq) ps"
  by (induction ps arbitrary: st) (simp_all add: zValues_sample_step)

lemma length_surface_of: "length (surface_of ev eq ps) = length ps"
  by (simp add: surface_of_def Let_def)

lemma nth_surface_of:
  "k < length ps \<Longrightarrow>
     surface_of ev eq ps ! k = surface_vertex ps (sample_loop ev eq ps sampling_init) k"
  by (simp add: surface_of_def Let_def)

lemma pz_surface_of:
  "k < length ps \<Longrightarrow> pz (surface_of ev eq ps ! k) = sample_value ev eq (ps ! k)"
  by (simp add: nth_surface_of surface_vertex_def Let_def zValues_sample_loop sampling_init_def)

lemma pxy_surface_of:
  "k < length ps \<Longrightarrow> px (surface_of ev eq ps ! k) = fst (ps ! k) \<and> py (surface_of ev eq ps ! k) = snd (ps ! k)"
  by (simp add: nth_surface_of surface_vertex_def Let_def)

lemma sample_value_range: "\<exists>r. sample_value ev eq p = Fin r \<and> - 10 \<le> r \<and> r \<le> 10"
  by (cases "ev eq (scope3d (fst p) (snd p))") (simp_all add: sample_value_def clampValue_range)

lemma grid_rows:
  assumes "2 \<le> n"
  shows "grid n = concat (map (\<lambda>r. map (\<lambda>c. (Fin (real c * (12 / (real n - 1)) - 6), Fin (6 - real r * (12 / (real n - 1))))) [0..<n]) [0..<n])"
proof -
  from assms have a: "real_of_int (int n - 1) = real n - 1" by simp
  from assms have b: "real n - 1 \<noteq> 0" by simp
  from assms have c: "nat (int n - 1 + 1) = n" by simp
  show ?thesis
    using assms by (simp add: grid_def PlaneGeometry_def Let_def size_const_def js_sub_def a b c)
qed

lemma height_color_Fin:
  "height_color (Fin t) =
     (if t < 0.33 then (Fin (0.4 * (t / 0.33)), Fin (0.4 + 0.6 * (t / 0.33)), Fin 0.9)
      else if t < 0.66 then
        (Fin (0.4 + 0.5 * ((t - 0.33) / 0.33)), Fin 0.9, Fin (0.9 - 0.6 * ((t - 0.33) / 0.33)))
      else (Fin 0.9, Fin (0.9 - 0.6 * ((t - 0.66) / 0.34)), Fin (0.3 - 0.2 * ((t - 0.66) / 0.34))))"
  by (simp add: height_color_def Let_def js_sub_def)

lemma height_color_unit:
  assumes "0 \<le> t" "t \<le> 1"
  shows "unit_interval (fst (height_color (Fin t)))
       \<and> unit_interval (fst (snd (height_color (Fin t))))
       \<and> unit_interval (snd (snd (height_color (Fin t))))"
  using assms by (simp add: height_color_Fin unit_interval_def field_simps)

text \<open>The definitions that a concrete run unfolds.\<close>

lemmas run_defs =
  MathSurface_def curve_def curve_vertex_def curve_x_def size_const_def scope2d_def scope3d_def
  evaluate_sample_def lookup_x_def clampValue_def Math_min_def Math_max_def Let_def
  surface_def surface_of_def surface_vertex_def grid_def PlaneGeometry_def js_sub_def
  sample_step_def sampling_init_def normalizedHeight_def height_color_def js_strict_neq_def
  signed_inf_def

lemma saturate_eq: "max (- 10) (min 10 v) = (if v < - 10 then - 10 else if 10 < v then 10 else (v::real))"
  by (simp add: max_def min_def)

lemma grid_length: "2 \<le> n \<Longrightarrow> length (grid n) = n * n"
  by (simp add: grid_rows concat_rows_length)

lemma grid_nth:
  "2 \<le> n \<Longrightarrow> r < n \<Longrightarrow> c < n \<Longrightarrow>
     grid n ! (r * n + c) = (Fin (real c * (12 / (real n - 1)) - 6), Fin (6 - real r * (12 / (real n - 1))))"
  by (simp add: grid_rows concat_rows_nth)

lemma step_range:
  assumes "2 \<le> n" "i < n"
  shows "0 \<le> real i * (12 / (real n - 1)) \<and> real i * (12 / (real n - 1)) \<le> 12"
proof -
  from assms have pos: "0 < real n - 1" by simp
  from assms have "real i \<le> real n - 1" by simp
  then have "real i * 12 \<le> (real n - 1) * 12" by simp
  with pos have "real i * 12 / (real n - 1) \<le> 12"
    by (simp add: pos_divide_le_eq mult.commute)
  moreover from pos have "0 \<le> real i * 12 / (real n - 1)" by simp
  ultimately show ?thesis by simp
qed

text \<open>
  The color of a curve vertex whose evaluation returned, finite or not: the gradient of
  lines 34 to 37 on the stored value.
\<close>

lemma curve_color_of_returned_sample:
  assumes "i < n" and "ev eq (scope2d (curve_x n i)) = Returns y"
  shows "\<exists>c. py (curve ev eq n ! i) = Fin c
     \<and> cr (curve ev eq n ! i) = Fin (0.2 + 0.8 * ((c + 6) / 12))
     \<and> cg (curve ev eq n ! i) = Fin (0.2 + 0.8 * (1 - (c + 6) / 12))
     \<and> cb (curve ev eq n ! i) = Fin 0.2"
proof -
  from clampValue_range obtain c where c: "clampValue y = Fin c" by blast
  with assms show ?thesis
    by (simp add: nth_curve curve_vertex_def Let_def size_const_def js_sub_def)
qed

lemma tracked_bounds_init: "tracked_bounds sampling_init"
  by (simp add: tracked_bounds_def sampling_init_def)

lemma sample_step_returns:
  assumes "ev eq (scope3d (fst p) (snd p)) = Returns z" and "clampValue z = Fin c"
  shows "sample_step ev eq p st =
           \<lparr> minZ = Math_min (minZ st) (Fin c), maxZ = Math_max (maxZ st) (Fin c),
             zValues = zValues st @ [Fin c] \<rparr>"
  using assms by (simp add: sample_step_def Let_def)

lemma sample_step_tracked:
  assumes ret: "ev eq (scope3d (fst p) (snd p)) \<noteq> Throws"
    and inv: "tracked_bounds st"
  shows "tracked_bounds (sample_step ev eq p st)"
proof -
  from ret obtain z where z: "ev eq (scope3d (fst p) (snd p)) = Returns z"
    by (cases "ev eq (scope3d (fst p) (snd p))") simp_all
  from clampValue_range obtain c where c: "clampValue z = Fin c" by blast
  have step: "sample_step ev eq p st =
           \<lparr> minZ = Math_min (minZ st) (Fin c), maxZ = Math_max (maxZ st) (Fin c),
             zValues = zValues st @ [Fin c] \<rparr>"
    using z c by (rule sample_step_returns)
  from inv consider
    (empty) "zValues st = []" "minZ st = PosInf" "maxZ st = NegInf"
    | (some) lo hi where "minZ st = Fin lo" "maxZ st = Fin hi"
        "\<forall>z\<in>set (zValues st). \<exists>r. z = Fin r \<and> lo \<le> r \<and> r \<le> hi"
    by (auto simp: tracked_bounds_def)
  then show ?thesis
  proof cases
    case empty
    then show ?thesis
      by (simp add: step tracked_bounds_def Math_min_def Math_max_def)
  next
    case some
    have lo: "Math_min (Fin lo) (Fin c) = Fin (min lo c)"
      by (simp add: Math_min_def min_def)
    have hi: "Math_max (Fin hi) (Fin c) = Fin (max hi c)"
      by (simp add: Math_max_def max_def)
    from some(3) have "\<forall>z\<in>set (zValues st @ [Fin c]). \<exists>r. z = Fin r \<and> min lo c \<le> r \<and> r \<le> max hi c"
      by fastforce
    with some(1,2) show ?thesis
      by (simp add: step tracked_bounds_def lo hi)
  qed
qed

lemma sample_loop_tracked:
  assumes "\<forall>p\<in>set ps. ev eq (scope3d (fst p) (snd p)) \<noteq> Throws" and "tracked_bounds st"
  shows "tracked_bounds (sample_loop ev eq ps st)"
  using assms by (induction ps arbitrary: st) (simp_all add: sample_step_tracked)

lemma normalizedHeight_between:
  assumes "lo \<le> r" "r \<le> hi"
  shows "\<exists>t. normalizedHeight (Fin lo) (Fin hi) (Fin r) = Fin t \<and> 0 \<le> t \<and> t \<le> 1"
proof (cases "hi = lo")
  case True
  then have "normalizedHeight (Fin lo) (Fin hi) (Fin r) = Fin 0.5"
    by (simp add: normalizedHeight_def js_strict_neq_def)
  then show ?thesis by (intro exI [of _ "0.5"]) simp
next
  case False
  with assms have pos: "0 < hi - lo" by simp
  from assms have "r - lo \<le> hi - lo" by simp
  with pos have "(r - lo) / (hi - lo) \<le> 1" by (simp add: pos_divide_le_eq)
  moreover from assms pos have "0 \<le> (r - lo) / (hi - lo)" by simp
  ultimately show ?thesis
    using False by (simp add: normalizedHeight_def js_strict_neq_def js_sub_def)
qed

lemma surface_colors_unit:
  assumes noThrow: "\<forall>p\<in>set ps. ev eq (scope3d (fst p) (snd p)) \<noteq> Throws"
    and v: "v \<in> set (surface_of ev eq ps)"
  shows "unit_interval (cr v) \<and> unit_interval (cg v) \<and> unit_interval (cb v)"
proof -
  let ?st = "sample_loop ev eq ps sampling_init"
  from v obtain k where k: "k < length ps" and vk: "v = surface_vertex ps ?st k"
    by (auto simp: surface_of_def Let_def)
  have len: "length (zValues ?st) = length ps"
    by (simp add: zValues_sample_loop sampling_init_def)
  with k have mem: "zValues ?st ! k \<in> set (zValues ?st)" by simp
  have "tracked_bounds ?st"
    using noThrow tracked_bounds_init by (rule sample_loop_tracked)
  with mem obtain lo hi r where b: "minZ ?st = Fin lo" "maxZ ?st = Fin hi"
    "zValues ?st ! k = Fin r" "lo \<le> r" "r \<le> hi"
    unfolding tracked_bounds_def by fastforce
  from normalizedHeight_between [OF b(4,5)] obtain t
    where t: "normalizedHeight (Fin lo) (Fin hi) (Fin r) = Fin t" "0 \<le> t" "t \<le> 1"
    by blast
  from height_color_unit [OF t(2,3)] show ?thesis
    by (simp add: vk surface_vertex_def Let_def b t(1))
qed

lemma curve_colors_range:
  assumes "v \<in> set (curve ev eq n)"
  shows "\<exists>y r g. py v = Fin y \<and> cr v = Fin r \<and> cg v = Fin g
      \<and> - 1 / 15 \<le> r \<and> r \<le> 19 / 15 \<and> - 1 / 15 \<le> g \<and> g \<le> 19 / 15
      \<and> (- 6 \<le> y \<and> y \<le> 6 \<longrightarrow> 0 \<le> r \<and> r \<le> 1 \<and> 0 \<le> g \<and> g \<le> 1)
      \<and> (cb v = Fin 0 \<or> cb v = Fin 0.2)"
proof -
  from assms obtain i where i: "i < n" and v: "v = curve_vertex ev eq n i"
    by (auto simp: curve_def)
  show ?thesis
  proof (cases "ev eq (scope2d (curve_x n i))")
    case Throws
    then show ?thesis by (simp add: v curve_vertex_def Let_def)
  next
    case (Returns y)
    from clampValue_range obtain c where c: "clampValue y = Fin c" "- 10 \<le> c" "c \<le> 10" by blast
    from Returns c(1) have col: "py v = Fin c"
      "cr v = Fin (0.2 + (c + 6) / 12 * 0.8)" "cg v = Fin (0.2 + (1 - (c + 6) / 12) * 0.8)"
      "cb v = Fin 0.2"
      by (simp_all add: v curve_vertex_def Let_def size_const_def js_sub_def)
    from c(2,3) have "- 1 / 15 \<le> 0.2 + (c + 6) / 12 * 0.8" "0.2 + (c + 6) / 12 * 0.8 \<le> 19 / 15"
      "- 1 / 15 \<le> 0.2 + (1 - (c + 6) / 12) * 0.8" "0.2 + (1 - (c + 6) / 12) * 0.8 \<le> 19 / 15"
      by (simp_all add: field_simps)
    moreover have "0 \<le> 0.2 + (c + 6) / 12 * 0.8 \<and> 0.2 + (c + 6) / 12 * 0.8 \<le> 1
        \<and> 0 \<le> 0.2 + (1 - (c + 6) / 12) * 0.8 \<and> 0.2 + (1 - (c + 6) / 12) * 0.8 \<le> 1"
      if "- 6 \<le> c" "c \<le> 6"
      using that by (simp add: field_simps)
    ultimately show ?thesis
      unfolding col by blast
  qed
qed

text \<open>
  The height is a number unless the bounds are still the initial infinities; then it is
  \<^verbatim>\<open>NaN\<close>, every comparison fails and the third band applies.
\<close>

lemma height_color_NaN: "height_color NaN = (Fin 0.9, NaN, NaN)"
  by (simp add: height_color_def js_sub_def)

lemma normalizedHeight_equal_bounds: "lo \<noteq> NaN \<Longrightarrow> normalizedHeight lo lo z = Fin 0.5"
  by (simp add: normalizedHeight_def js_strict_neq_def)

lemma surface_vertex_color:
  assumes "k < length ps"
  shows "(cr (surface_of ev eq ps ! k), cg (surface_of ev eq ps ! k), cb (surface_of ev eq ps ! k))
      = height_color (normalizedHeight (minZ (sample_loop ev eq ps sampling_init))
          (maxZ (sample_loop ev eq ps sampling_init)) (pz (surface_of ev eq ps ! k)))"
  using assms by (simp add: nth_surface_of surface_vertex_def Let_def)

section \<open>The claims\<close>

text \<open>
  C1. In surface mode, when no sample evaluation throws, the three color channels of
  every vertex lie in \<open>[0,1]\<close>. In curve mode the blue channel of every vertex lies in
  \<open>[0,1]\<close>, the red and the green channel lie in \<open>[-1/15, 19/15]\<close>, and they lie in
  \<open>[0,1]\<close> for every vertex whose stored value lies in \<open>[-6,6]\<close>: the gradient is
  normalised by the half-width 6 of the domain while values are clamped to \<open>[-10,10]\<close>.
\<close>

theorem C1_color_channel_ranges:
  "((\<forall>p\<in>set (grid n). ev eq (scope3d (fst p) (snd p)) \<noteq> Throws) \<longrightarrow>
      (\<forall>v\<in>set (MathSurface ev eq n Mode3d).
         unit_interval (cr v) \<and> unit_interval (cg v) \<and> unit_interval (cb v)))
   \<and> (\<forall>v\<in>set (MathSurface ev eq n Mode2d).
         unit_interval (cb v)
       \<and> (\<exists>y r g. py v = Fin y \<and> cr v = Fin r \<and> cg v = Fin g
             \<and> - 1 / 15 \<le> r \<and> r \<le> 19 / 15 \<and> - 1 / 15 \<le> g \<and> g \<le> 19 / 15
             \<and> (- 6 \<le> y \<and> y \<le> 6 \<longrightarrow> unit_interval (cr v) \<and> unit_interval (cg v))))"
proof (intro conjI impI ballI)
  fix v
  assume "\<forall>p\<in>set (grid n). ev eq (scope3d (fst p) (snd p)) \<noteq> Throws"
    and "v \<in> set (MathSurface ev eq n Mode3d)"
  then have "unit_interval (cr v) \<and> unit_interval (cg v) \<and> unit_interval (cb v)"
    by (simp add: MathSurface_def surface_def surface_colors_unit)
  then show "unit_interval (cr v)" "unit_interval (cg v)" "unit_interval (cb v)"
    by simp_all
next
  fix v
  assume "v \<in> set (MathSurface ev eq n Mode2d)"
  then have v: "v \<in> set (curve ev eq n)" by (simp add: MathSurface_def)
  from curve_colors_range [OF v] obtain y r g where c:
    "py v = Fin y" "cr v = Fin r" "cg v = Fin g"
    "- 1 / 15 \<le> r" "r \<le> 19 / 15" "- 1 / 15 \<le> g" "g \<le> 19 / 15"
    "- 6 \<le> y \<and> y \<le> 6 \<longrightarrow> 0 \<le> r \<and> r \<le> 1 \<and> 0 \<le> g \<and> g \<le> 1"
    "cb v = Fin 0 \<or> cb v = Fin 0.2"
    by blast
  from c(9) show "unit_interval (cb v)"
    by (auto simp: unit_interval_def)
  from c(1-8) show "\<exists>y r g. py v = Fin y \<and> cr v = Fin r \<and> cg v = Fin g
             \<and> - 1 / 15 \<le> r \<and> r \<le> 19 / 15 \<and> - 1 / 15 \<le> g \<and> g \<le> 19 / 15
             \<and> (- 6 \<le> y \<and> y \<le> 6 \<longrightarrow> unit_interval (cr v) \<and> unit_interval (cg v))"
    by (simp add: unit_interval_def)
qed

theorem C1_color_channel_ranges_witness:
  "list_all (\<lambda>p. evaluate_sample ''x^2'' (scope3d (fst p) (snd p)) \<noteq> Throws) (grid 3)
   \<and> MathSurface evaluate_sample ''x^2'' 3 Mode3d ! 0 \<in> set (MathSurface evaluate_sample ''x^2'' 3 Mode3d)
   \<and> unit_interval (cr (MathSurface evaluate_sample ''x^2'' 3 Mode3d ! 0))
   \<and> unit_interval (cg (MathSurface evaluate_sample ''x^2'' 3 Mode3d ! 0))
   \<and> unit_interval (cb (MathSurface evaluate_sample ''x^2'' 3 Mode3d ! 0))
   \<and> MathSurface evaluate_sample ''x^2'' 5 Mode2d ! 2 \<in> set (MathSurface evaluate_sample ''x^2'' 5 Mode2d)
   \<and> py (MathSurface evaluate_sample ''x^2'' 5 Mode2d ! 2) = Fin 0
   \<and> unit_interval (cr (MathSurface evaluate_sample ''x^2'' 5 Mode2d ! 2))
   \<and> unit_interval (cg (MathSurface evaluate_sample ''x^2'' 5 Mode2d ! 2))
   \<and> unit_interval (cb (MathSurface evaluate_sample ''x^2'' 5 Mode2d ! 2))"
proof -
  have h: "\<forall>p\<in>set (grid 3). evaluate_sample ''x^2'' (scope3d (fst p) (snd p)) \<noteq> Throws"
    by (simp add: evaluate_sample_def)
  have m3: "MathSurface evaluate_sample ''x^2'' 3 Mode3d ! 0 \<in> set (MathSurface evaluate_sample ''x^2'' 3 Mode3d)"
    by (rule nth_mem) (simp add: MathSurface_def surface_def length_surface_of grid_length)
  have m2: "MathSurface evaluate_sample ''x^2'' 5 Mode2d ! 2 \<in> set (MathSurface evaluate_sample ''x^2'' 5 Mode2d)"
    by (rule nth_mem) (simp add: MathSurface_def length_curve)
  have y: "py (MathSurface evaluate_sample ''x^2'' 5 Mode2d ! 2) = Fin 0"
    by (simp add: MathSurface_def nth_curve py_curve_vertex) (simp add: run_defs)
  note t3 = C1_color_channel_ranges [of 3 evaluate_sample "''x^2''"]
  note t5 = C1_color_channel_ranges [of 5 evaluate_sample "''x^2''"]
  from t3 h m3 have a: "unit_interval (cr (MathSurface evaluate_sample ''x^2'' 3 Mode3d ! 0))
      \<and> unit_interval (cg (MathSurface evaluate_sample ''x^2'' 3 Mode3d ! 0))
      \<and> unit_interval (cb (MathSurface evaluate_sample ''x^2'' 3 Mode3d ! 0))"
    by blast
  from t5 m2 have b: "unit_interval (cb (MathSurface evaluate_sample ''x^2'' 5 Mode2d ! 2))
      \<and> (\<exists>y r g. py (MathSurface evaluate_sample ''x^2'' 5 Mode2d ! 2) = Fin y
            \<and> cr (MathSurface evaluate_sample ''x^2'' 5 Mode2d ! 2) = Fin r
            \<and> cg (MathSurface evaluate_sample ''x^2'' 5 Mode2d ! 2) = Fin g
            \<and> - 1 / 15 \<le> r \<and> r \<le> 19 / 15 \<and> - 1 / 15 \<le> g \<and> g \<le> 19 / 15
            \<and> (- 6 \<le> y \<and> y \<le> 6 \<longrightarrow> unit_interval (cr (MathSurface evaluate_sample ''x^2'' 5 Mode2d ! 2))
                 \<and> unit_interval (cg (MathSurface evaluate_sample ''x^2'' 5 Mode2d ! 2))))"
    by blast
  with y have c: "unit_interval (cr (MathSurface evaluate_sample ''x^2'' 5 Mode2d ! 2))
      \<and> unit_interval (cg (MathSurface evaluate_sample ''x^2'' 5 Mode2d ! 2))"
    by auto
  from h have "list_all (\<lambda>p. evaluate_sample ''x^2'' (scope3d (fst p) (snd p)) \<noteq> Throws) (grid 3)"
    by (simp add: list_all_iff)
  with m3 m2 y a b c show ?thesis by blast
qed

theorem C1_curve_red_above_one_counterexample:
  "py (MathSurface evaluate_sample ''x^2'' 5 Mode2d ! 0) = Fin 10
   \<and> cr (MathSurface evaluate_sample ''x^2'' 5 Mode2d ! 0) = Fin (19 / 15)
   \<and> cg (MathSurface evaluate_sample ''x^2'' 5 Mode2d ! 0) = Fin (- 1 / 15)
   \<and> \<not> unit_interval (cr (MathSurface evaluate_sample ''x^2'' 5 Mode2d ! 0))
   \<and> \<not> unit_interval (cg (MathSurface evaluate_sample ''x^2'' 5 Mode2d ! 0))"
proof -
  have v: "MathSurface evaluate_sample ''x^2'' 5 Mode2d ! 0 = curve_vertex evaluate_sample ''x^2'' 5 0"
    by (simp add: MathSurface_def nth_curve)
  show ?thesis
    unfolding v by (simp add: run_defs unit_interval_def)
qed

text \<open>
  C2. A sample whose evaluation throws, or returns a value that is not finite, is stored
  as \<open>0\<close>, in both modes. The run still yields one vertex per sample coordinate (the
  functions of the model are total: the \<^verbatim>\<open>try\<close> block encloses every call of the
  evaluator, so nothing is thrown past the loop), and the value stored for a sample
  depends on the evaluator's outcome at that sample's coordinate only: two evaluators that
  agree there give the same stored value, whatever they do elsewhere.
\<close>

theorem C2_failed_sample_is_local_zero:
  "(\<forall>i<n. (ev eq (scope2d (curve_x n i)) = Throws
            \<or> (\<exists>y. ev eq (scope2d (curve_x n i)) = Returns y \<and> \<not> isFinite y)) \<longrightarrow>
          py (MathSurface ev eq n Mode2d ! i) = Fin 0)
   \<and> (\<forall>k<length (grid n).
          (ev eq (scope3d (fst (grid n ! k)) (snd (grid n ! k))) = Throws
            \<or> (\<exists>z. ev eq (scope3d (fst (grid n ! k)) (snd (grid n ! k))) = Returns z \<and> \<not> isFinite z)) \<longrightarrow>
          pz (MathSurface ev eq n Mode3d ! k) = Fin 0)
   \<and> length (MathSurface ev eq n Mode2d) = n
   \<and> length (MathSurface ev eq n Mode3d) = length (grid n)
   \<and> (\<forall>i<n. ev eq (scope2d (curve_x n i)) = ev' eq' (scope2d (curve_x n i)) \<longrightarrow>
          py (MathSurface ev eq n Mode2d ! i) = py (MathSurface ev' eq' n Mode2d ! i))
   \<and> (\<forall>k<length (grid n).
          ev eq (scope3d (fst (grid n ! k)) (snd (grid n ! k)))
            = ev' eq' (scope3d (fst (grid n ! k)) (snd (grid n ! k))) \<longrightarrow>
          pz (MathSurface ev eq n Mode3d ! k) = pz (MathSurface ev' eq' n Mode3d ! k))"
proof (intro conjI allI impI)
  fix i
  assume "i < n"
    and "ev eq (scope2d (curve_x n i)) = Throws
           \<or> (\<exists>y. ev eq (scope2d (curve_x n i)) = Returns y \<and> \<not> isFinite y)"
  then show "py (MathSurface ev eq n Mode2d ! i) = Fin 0"
    by (auto simp: MathSurface_def nth_curve py_curve_vertex clampValue_not_finite)
next
  fix k
  assume "k < length (grid n)"
    and "ev eq (scope3d (fst (grid n ! k)) (snd (grid n ! k))) = Throws
           \<or> (\<exists>z. ev eq (scope3d (fst (grid n ! k)) (snd (grid n ! k))) = Returns z \<and> \<not> isFinite z)"
  then show "pz (MathSurface ev eq n Mode3d ! k) = Fin 0"
    by (auto simp: MathSurface_def surface_def pz_surface_of sample_value_def clampValue_not_finite)
next
  show "length (MathSurface ev eq n Mode2d) = n"
    by (simp add: MathSurface_def length_curve)
next
  show "length (MathSurface ev eq n Mode3d) = length (grid n)"
    by (simp add: MathSurface_def surface_def length_surface_of)
next
  fix i
  assume "i < n" and "ev eq (scope2d (curve_x n i)) = ev' eq' (scope2d (curve_x n i))"
  then show "py (MathSurface ev eq n Mode2d ! i) = py (MathSurface ev' eq' n Mode2d ! i)"
    by (simp add: MathSurface_def nth_curve py_curve_vertex)
next
  fix k
  assume "k < length (grid n)"
    and "ev eq (scope3d (fst (grid n ! k)) (snd (grid n ! k)))
           = ev' eq' (scope3d (fst (grid n ! k)) (snd (grid n ! k)))"
  then show "pz (MathSurface ev eq n Mode3d ! k) = pz (MathSurface ev' eq' n Mode3d ! k)"
    by (simp add: MathSurface_def surface_def pz_surface_of sample_value_def)
qed

theorem C2_failed_sample_is_local_zero_witness:
  "evaluate_sample ''x > 0 ? 1 : q'' (scope2d (curve_x 5 0)) = Throws
   \<and> py (MathSurface evaluate_sample ''x > 0 ? 1 : q'' 5 Mode2d ! 0) = Fin 0
   \<and> evaluate_sample ''x^2'' (scope2d (curve_x 1 0)) = Returns NaN
   \<and> py (MathSurface evaluate_sample ''x^2'' 1 Mode2d ! 0) = Fin 0
   \<and> (0::nat) < length (grid 3)
   \<and> evaluate_sample ''x > 0 ? 1 : q'' (scope3d (fst (grid 3 ! 0)) (snd (grid 3 ! 0))) = Throws
   \<and> pz (MathSurface evaluate_sample ''x > 0 ? 1 : q'' 3 Mode3d ! 0) = Fin 0
   \<and> (0::nat) < length (grid 1)
   \<and> evaluate_sample ''x^2'' (scope3d (fst (grid 1 ! 0)) (snd (grid 1 ! 0))) = Returns NaN
   \<and> pz (MathSurface evaluate_sample ''x^2'' 1 Mode3d ! 0) = Fin 0
   \<and> evaluate_sample ''x^2'' (scope2d (curve_x 13 7))
        = evaluate_sample ''x > 0 ? 1 : q'' (scope2d (curve_x 13 7))
   \<and> py (MathSurface evaluate_sample ''x^2'' 13 Mode2d ! 7)
        = py (MathSurface evaluate_sample ''x > 0 ? 1 : q'' 13 Mode2d ! 7)
   \<and> (7::nat) < length (grid 13)
   \<and> evaluate_sample ''x^2'' (scope3d (fst (grid 13 ! 7)) (snd (grid 13 ! 7)))
        = evaluate_sample ''x > 0 ? 1 : q'' (scope3d (fst (grid 13 ! 7)) (snd (grid 13 ! 7)))
   \<and> pz (MathSurface evaluate_sample ''x^2'' 13 Mode3d ! 7)
        = pz (MathSurface evaluate_sample ''x > 0 ? 1 : q'' 13 Mode3d ! 7)"
proof -
  have g3: "grid 3 ! 0 = (Fin (- 6), Fin 6) \<and> 0 < length (grid 3)"
    using grid_nth [of 3 0 0] grid_length [of 3] by simp
  have g1: "grid 1 = [(NaN, NaN)]"
    by (simp add: run_defs)
  have g13: "grid 13 ! 7 = (Fin 1, Fin 6) \<and> 7 < length (grid 13)"
    using grid_nth [of 13 0 7] grid_length [of 13] by simp
  have a1: "evaluate_sample ''x > 0 ? 1 : q'' (scope2d (curve_x 5 0)) = Throws"
    by (simp add: run_defs)
  have a2: "evaluate_sample ''x^2'' (scope2d (curve_x 1 0)) = Returns NaN"
    by (simp add: run_defs)
  have a3: "evaluate_sample ''x > 0 ? 1 : q'' (scope3d (fst (grid 3 ! 0)) (snd (grid 3 ! 0))) = Throws"
    by (simp add: g3) (simp add: run_defs)
  have a4: "evaluate_sample ''x^2'' (scope3d (fst (grid 1 ! 0)) (snd (grid 1 ! 0))) = Returns NaN"
    by (simp add: g1) (simp add: run_defs)
  have a5: "evaluate_sample ''x^2'' (scope2d (curve_x 13 7))
        = evaluate_sample ''x > 0 ? 1 : q'' (scope2d (curve_x 13 7))"
    by (simp add: run_defs)
  have a6: "evaluate_sample ''x^2'' (scope3d (fst (grid 13 ! 7)) (snd (grid 13 ! 7)))
        = evaluate_sample ''x > 0 ? 1 : q'' (scope3d (fst (grid 13 ! 7)) (snd (grid 13 ! 7)))"
    by (simp add: g13) (simp add: run_defs)
  note t = C2_failed_sample_is_local_zero
  from t [of 5 evaluate_sample "''x > 0 ? 1 : q''"] a1
  have b1: "py (MathSurface evaluate_sample ''x > 0 ? 1 : q'' 5 Mode2d ! 0) = Fin 0" by simp
  from t [of 1 evaluate_sample "''x^2''"] a2
  have b2: "py (MathSurface evaluate_sample ''x^2'' 1 Mode2d ! 0) = Fin 0" by simp
  from t [of 3 evaluate_sample "''x > 0 ? 1 : q''"] a3 g3
  have b3: "pz (MathSurface evaluate_sample ''x > 0 ? 1 : q'' 3 Mode3d ! 0) = Fin 0" by simp
  from t [of 1 evaluate_sample "''x^2''"] a4 g1
  have b4: "pz (MathSurface evaluate_sample ''x^2'' 1 Mode3d ! 0) = Fin 0" by simp
  from t [of 13 evaluate_sample "''x^2''" evaluate_sample "''x > 0 ? 1 : q''"] a5
  have b5: "py (MathSurface evaluate_sample ''x^2'' 13 Mode2d ! 7)
        = py (MathSurface evaluate_sample ''x > 0 ? 1 : q'' 13 Mode2d ! 7)" by simp
  from t [of 13 evaluate_sample "''x^2''" evaluate_sample "''x > 0 ? 1 : q''"] a6 g13
  have b6: "pz (MathSurface evaluate_sample ''x^2'' 13 Mode3d ! 7)
        = pz (MathSurface evaluate_sample ''x > 0 ? 1 : q'' 13 Mode3d ! 7)" by simp
  from a1 a2 a3 a4 a5 a6 b1 b2 b3 b4 b5 b6 g1 g3 g13 show ?thesis by simp
qed

text \<open>
  C3. The tracked minimum and maximum of the surface are meant to be those of all stored
  values, failed samples included, and the normalised height to be \<open>0.5\<close> for every
  sample when all evaluations fail. In the first run below every evaluation throws: the
  four stored values are \<open>0\<close>, but the bounds are still \<^verbatim>\<open>Infinity\<close> and
  \<^verbatim>\<open>-Infinity\<close>, which differ, so the normalised height is
  \<^verbatim>\<open>-Infinity / -Infinity = NaN\<close> and the color of every vertex is
  \<^verbatim>\<open>(0.9, NaN, NaN)\<close>. In the second run two evaluations throw and two return
  \<open>1\<close>: the stored values are \<open>0, 1, 0, 1\<close> and the tracked minimum is \<open>1\<close>, not
  \<open>0\<close>. The \<^verbatim>\<open>catch\<close> block pushes the \<open>0\<close> without updating the bounds.
\<close>

theorem C3_thrown_samples_miss_the_bounds:
  "zValues (sample_loop evaluate_sample ''x == 1 ? 0 : q'' (grid 2) sampling_init)
       = [Fin 0, Fin 0, Fin 0, Fin 0]
   \<and> minZ (sample_loop evaluate_sample ''x == 1 ? 0 : q'' (grid 2) sampling_init) = PosInf
   \<and> maxZ (sample_loop evaluate_sample ''x == 1 ? 0 : q'' (grid 2) sampling_init) = NegInf
   \<and> normalizedHeight PosInf NegInf (Fin 0) = NaN
   \<and> map (\<lambda>v. (pz v, cr v, cg v, cb v)) (MathSurface evaluate_sample ''x == 1 ? 0 : q'' 2 Mode3d)
       = [(Fin 0, Fin (9 / 10), NaN, NaN), (Fin 0, Fin (9 / 10), NaN, NaN),
          (Fin 0, Fin (9 / 10), NaN, NaN), (Fin 0, Fin (9 / 10), NaN, NaN)]
   \<and> zValues (sample_loop evaluate_sample ''x > 0 ? 1 : q'' (grid 2) sampling_init)
       = [Fin 0, Fin 1, Fin 0, Fin 1]
   \<and> minZ (sample_loop evaluate_sample ''x > 0 ? 1 : q'' (grid 2) sampling_init) = Fin 1
   \<and> maxZ (sample_loop evaluate_sample ''x > 0 ? 1 : q'' (grid 2) sampling_init) = Fin 1"
proof -
  have g2: "grid 2 = [(Fin (- 6), Fin 6), (Fin 6, Fin 6), (Fin (- 6), Fin (- 6)), (Fin 6, Fin (- 6))]"
    by (simp add: run_defs upt_rec[of _ "numeral _"] upt_rec[of 0])
  have a: "sample_loop evaluate_sample ''x == 1 ? 0 : q'' (grid 2) sampling_init
      = \<lparr> minZ = PosInf, maxZ = NegInf, zValues = [Fin 0, Fin 0, Fin 0, Fin 0] \<rparr>"
    by (simp add: g2) (simp add: run_defs)
  have b: "sample_loop evaluate_sample ''x > 0 ? 1 : q'' (grid 2) sampling_init
      = \<lparr> minZ = Fin 1, maxZ = Fin 1, zValues = [Fin 0, Fin 1, Fin 0, Fin 1] \<rparr>"
    by (simp add: g2) (simp add: run_defs)
  have h: "normalizedHeight PosInf NegInf (Fin 0) = NaN"
    by (simp add: normalizedHeight_def js_strict_neq_def js_sub_def)
  have c: "map (\<lambda>v. (pz v, cr v, cg v, cb v)) (MathSurface evaluate_sample ''x == 1 ? 0 : q'' 2 Mode3d)
       = [(Fin 0, Fin (9 / 10), NaN, NaN), (Fin 0, Fin (9 / 10), NaN, NaN),
          (Fin 0, Fin (9 / 10), NaN, NaN), (Fin 0, Fin (9 / 10), NaN, NaN)]"
    by (simp add: MathSurface_def surface_def surface_of_def a Let_def)
       (simp add: g2 surface_vertex_def h height_color_def js_sub_def Let_def upt_rec[of _ "numeral _"] upt_rec[of 0])
  from a b c h show ?thesis by simp
qed

text \<open>
  C4. In curve mode the color of a vertex is computed from its stored value \<open>c\<close> by
  \<open>t = (c + 6) / 12\<close>, \<open>R = 0.2 + 0.8 t\<close>, \<open>G = 0.2 + 0.8 (1 - t)\<close>, \<open>B = 0.2\<close>, also for a
  vertex whose evaluation failed, where \<open>c = 0\<close> and the color would be
  \<open>(0.6, 0.6, 0.2)\<close>. The run below has three samples whose evaluation throws: their
  stored value is \<open>0\<close> and their color is \<open>(0, 0, 0)\<close>, the initial content of the
  array, because the \<^verbatim>\<open>catch\<close> block writes no color.
\<close>

theorem C4_thrown_sample_has_no_color:
  "evaluate_sample ''x > 0 ? 1 : q'' (scope2d (curve_x 5 0)) = Throws
   \<and> map (\<lambda>v. (py v, cr v, cg v, cb v)) (MathSurface evaluate_sample ''x > 0 ? 1 : q'' 5 Mode2d)
       = [(Fin 0, Fin 0, Fin 0, Fin 0),
          (Fin 0, Fin 0, Fin 0, Fin 0),
          (Fin 0, Fin 0, Fin 0, Fin 0),
          (Fin 1, Fin (2 / 3), Fin (8 / 15), Fin (1 / 5)),
          (Fin 1, Fin (2 / 3), Fin (8 / 15), Fin (1 / 5))]
   \<and> (Fin (0.2 + 0.8 * ((0 + 6) / 12)), Fin (0.2 + 0.8 * (1 - (0 + 6) / 12)), Fin 0.2)
       \<noteq> (Fin 0, Fin 0, Fin 0)"
  by (simp add: run_defs upt_rec[of _ "numeral _"] upt_rec[of 0])

text \<open>
  C5. The component applies no lower bound to the resolution. A curve at resolution
  \<open>n\<close> has exactly \<open>n\<close> vertices: none at resolution 0, and at resolution 1 a single
  vertex whose \<open>x\<close> is \<^verbatim>\<open>NaN\<close> (from \<^verbatim>\<open>0/0\<close>). Every \<open>x\<close> is finite as soon
  as the resolution is at least 2.
\<close>

theorem C5_no_lower_bound_on_resolution:
  "length (MathSurface ev eq n Mode2d) = n
   \<and> MathSurface ev eq 0 Mode2d = []
   \<and> px (MathSurface ev eq 1 Mode2d ! 0) = NaN
   \<and> (2 \<le> n \<longrightarrow> (\<forall>i<n. isFinite (px (MathSurface ev eq n Mode2d ! i))))"
proof (intro conjI impI allI)
  show "length (MathSurface ev eq n Mode2d) = n"
    by (simp add: MathSurface_def length_curve)
  show "MathSurface ev eq 0 Mode2d = []"
    by (simp add: MathSurface_def curve_def)
  show "px (MathSurface ev eq 1 Mode2d ! 0) = NaN"
    by (simp add: MathSurface_def nth_curve px_curve_vertex curve_x_def signed_inf_def)
next
  fix i
  assume "2 \<le> n" and "i < n"
  then show "isFinite (px (MathSurface ev eq n Mode2d ! i))"
    by (simp add: MathSurface_def nth_curve px_curve_vertex curve_x_Fin)
qed

theorem C5_no_lower_bound_on_resolution_witness:
  "(2::nat) \<le> 2 \<and> (1::nat) < 2
   \<and> isFinite (px (MathSurface evaluate_sample ''x^2'' 2 Mode2d ! 1))
   \<and> px (MathSurface evaluate_sample ''x^2'' 2 Mode2d ! 1) = Fin 6"
proof -
  from C5_no_lower_bound_on_resolution [of evaluate_sample "''x^2''" 2]
  have "isFinite (px (MathSurface evaluate_sample ''x^2'' 2 Mode2d ! 1))" by simp
  moreover have "px (MathSurface evaluate_sample ''x^2'' 2 Mode2d ! 1) = Fin 6"
    by (simp add: MathSurface_def nth_curve px_curve_vertex) (simp add: curve_x_def size_const_def)
  ultimately show ?thesis by simp
qed

theorem C5_resolution_one_counterexample:
  "length (MathSurface evaluate_sample ''x^2'' 1 Mode2d) = 1
   \<and> \<not> isFinite (px (MathSurface evaluate_sample ''x^2'' 1 Mode2d ! 0))
   \<and> MathSurface evaluate_sample ''x^2'' 1 Mode2d \<noteq> MathSurface evaluate_sample ''x^2'' 2 Mode2d
   \<and> MathSurface evaluate_sample ''x^2'' 0 Mode2d = []"
proof -
  have l1: "length (MathSurface evaluate_sample ''x^2'' 1 Mode2d) = 1"
    by (simp add: MathSurface_def length_curve)
  have l2: "length (MathSurface evaluate_sample ''x^2'' 2 Mode2d) = 2"
    by (simp add: MathSurface_def length_curve)
  have x1: "px (MathSurface evaluate_sample ''x^2'' 1 Mode2d ! 0) = NaN"
    by (simp add: MathSurface_def nth_curve px_curve_vertex curve_x_def signed_inf_def)
  have e0: "MathSurface evaluate_sample ''x^2'' 0 Mode2d = []"
    by (simp add: MathSurface_def curve_def)
  have ne: "MathSurface evaluate_sample ''x^2'' 1 Mode2d \<noteq> MathSurface evaluate_sample ''x^2'' 2 Mode2d"
  proof
    assume "MathSurface evaluate_sample ''x^2'' 1 Mode2d = MathSurface evaluate_sample ''x^2'' 2 Mode2d"
    then have "length (MathSurface evaluate_sample ''x^2'' 1 Mode2d)
        = length (MathSurface evaluate_sample ''x^2'' 2 Mode2d)" by simp
    with l1 l2 show False by simp
  qed
  from l1 x1 e0 ne show ?thesis by simp
qed

text \<open>
  C6. A sample whose evaluation returns a finite value \<open>v\<close> is stored as \<open>v\<close>
  saturated into \<open>[-10,10]\<close>: \<open>-10\<close> below \<open>-10\<close>, \<open>10\<close> above \<open>10\<close>,
  \<open>v\<close> otherwise, as the \<open>y\<close> of a curve vertex and as the \<open>z\<close> of a surface
  vertex. Every stored value lies in \<open>[-10,10]\<close>. For \<^verbatim>\<open>x^2\<close> as a curve at
  resolution 5 the stored values are 10, 9, 0, 9, 10.
\<close>

theorem C6_clamped_value_saturates:
  "(\<forall>i<n. \<forall>v. ev eq (scope2d (curve_x n i)) = Returns (Fin v) \<longrightarrow>
       py (MathSurface ev eq n Mode2d ! i) = Fin (if v < - 10 then - 10 else if 10 < v then 10 else v))
   \<and> (\<forall>k<length (grid n). \<forall>v.
         ev eq (scope3d (fst (grid n ! k)) (snd (grid n ! k))) = Returns (Fin v) \<longrightarrow>
         pz (MathSurface ev eq n Mode3d ! k) = Fin (if v < - 10 then - 10 else if 10 < v then 10 else v))
   \<and> (\<forall>vtx\<in>set (MathSurface ev eq n Mode2d). \<exists>r. py vtx = Fin r \<and> - 10 \<le> r \<and> r \<le> 10)
   \<and> (\<forall>vtx\<in>set (MathSurface ev eq n Mode3d). \<exists>r. pz vtx = Fin r \<and> - 10 \<le> r \<and> r \<le> 10)
   \<and> map py (MathSurface evaluate_sample ''x^2'' 5 Mode2d) = [Fin 10, Fin 9, Fin 0, Fin 9, Fin 10]"
proof (intro conjI allI impI ballI)
  fix i v
  assume "i < n" and "ev eq (scope2d (curve_x n i)) = Returns (Fin v)"
  then show "py (MathSurface ev eq n Mode2d ! i) = Fin (if v < - 10 then - 10 else if 10 < v then 10 else v)"
    by (simp add: MathSurface_def nth_curve py_curve_vertex clampValue_Fin saturate_eq)
next
  fix k v
  assume "k < length (grid n)"
    and "ev eq (scope3d (fst (grid n ! k)) (snd (grid n ! k))) = Returns (Fin v)"
  then show "pz (MathSurface ev eq n Mode3d ! k) = Fin (if v < - 10 then - 10 else if 10 < v then 10 else v)"
    by (simp add: MathSurface_def surface_def pz_surface_of sample_value_def clampValue_Fin saturate_eq)
next
  fix vtx
  assume "vtx \<in> set (MathSurface ev eq n Mode2d)"
  then obtain i where i: "i < n" and vtx: "vtx = curve_vertex ev eq n i"
    by (auto simp: MathSurface_def curve_def)
  show "\<exists>r. py vtx = Fin r \<and> - 10 \<le> r \<and> r \<le> 10"
  proof (cases "ev eq (scope2d (curve_x n i))")
    case Throws
    then show ?thesis by (simp add: vtx py_curve_vertex)
  next
    case (Returns y)
    then show ?thesis by (simp add: vtx py_curve_vertex clampValue_range)
  qed
next
  fix vtx
  assume "vtx \<in> set (MathSurface ev eq n Mode3d)"
  then obtain k where k: "k < length (grid n)" and vtx: "vtx = surface_of ev eq (grid n) ! k"
    by (auto simp: MathSurface_def surface_def in_set_conv_nth length_surface_of)
  from k show "\<exists>r. pz vtx = Fin r \<and> - 10 \<le> r \<and> r \<le> 10"
    by (simp add: vtx pz_surface_of sample_value_range)
next
  show "map py (MathSurface evaluate_sample ''x^2'' 5 Mode2d) = [Fin 10, Fin 9, Fin 0, Fin 9, Fin 10]"
    by (simp add: run_defs upt_rec[of _ "numeral _"] upt_rec[of 0])
qed

theorem C6_clamped_value_saturates_witness:
  "(0::nat) < 5
   \<and> evaluate_sample ''x^2'' (scope2d (curve_x 5 0)) = Returns (Fin 36)
   \<and> py (MathSurface evaluate_sample ''x^2'' 5 Mode2d ! 0) = Fin 10
   \<and> (2::nat) < length (grid 3)
   \<and> evaluate_sample ''x^2'' (scope3d (fst (grid 3 ! 2)) (snd (grid 3 ! 2))) = Returns (Fin 36)
   \<and> pz (MathSurface evaluate_sample ''x^2'' 3 Mode3d ! 2) = Fin 10
   \<and> MathSurface evaluate_sample ''x^2'' 5 Mode2d ! 1 \<in> set (MathSurface evaluate_sample ''x^2'' 5 Mode2d)
   \<and> (\<exists>r. py (MathSurface evaluate_sample ''x^2'' 5 Mode2d ! 1) = Fin r \<and> - 10 \<le> r \<and> r \<le> 10)
   \<and> MathSurface evaluate_sample ''x^2'' 3 Mode3d ! 1 \<in> set (MathSurface evaluate_sample ''x^2'' 3 Mode3d)
   \<and> (\<exists>r. pz (MathSurface evaluate_sample ''x^2'' 3 Mode3d ! 1) = Fin r \<and> - 10 \<le> r \<and> r \<le> 10)"
proof -
  have g3: "grid 3 = [(Fin (- 6), Fin 6), (Fin 0, Fin 6), (Fin 6, Fin 6), (Fin (- 6), Fin 0),
      (Fin 0, Fin 0), (Fin 6, Fin 0), (Fin (- 6), Fin (- 6)), (Fin 0, Fin (- 6)), (Fin 6, Fin (- 6))]"
    by (simp add: run_defs upt_rec[of _ "numeral _"] upt_rec[of 0])
  have h1: "evaluate_sample ''x^2'' (scope2d (curve_x 5 0)) = Returns (Fin 36)"
    by (simp add: run_defs)
  have h2: "evaluate_sample ''x^2'' (scope3d (fst (grid 3 ! 2)) (snd (grid 3 ! 2))) = Returns (Fin 36)"
    by (simp add: g3) (simp add: run_defs)
  have l3: "(2::nat) < length (grid 3)" by (simp add: g3)
  have len5: "length (MathSurface evaluate_sample ''x^2'' 5 Mode2d) = 5"
    by (simp add: MathSurface_def length_curve)
  have len3: "length (MathSurface evaluate_sample ''x^2'' 3 Mode3d) = 9"
    by (simp add: MathSurface_def surface_def length_surface_of g3)
  have m1: "MathSurface evaluate_sample ''x^2'' 5 Mode2d ! 1 \<in> set (MathSurface evaluate_sample ''x^2'' 5 Mode2d)"
    by (rule nth_mem) (simp add: len5)
  have m2: "MathSurface evaluate_sample ''x^2'' 3 Mode3d ! 1 \<in> set (MathSurface evaluate_sample ''x^2'' 3 Mode3d)"
    by (rule nth_mem) (simp add: len3)
  from C6_clamped_value_saturates [of 5 evaluate_sample "''x^2''"] h1
  have a: "py (MathSurface evaluate_sample ''x^2'' 5 Mode2d ! 0) = Fin 10" by simp
  from C6_clamped_value_saturates [of 3 evaluate_sample "''x^2''"] h2 l3
  have b: "pz (MathSurface evaluate_sample ''x^2'' 3 Mode3d ! 2) = Fin 10" by simp
  from C6_clamped_value_saturates [of 5 evaluate_sample "''x^2''"] m1
  have c: "\<exists>r. py (MathSurface evaluate_sample ''x^2'' 5 Mode2d ! 1) = Fin r \<and> - 10 \<le> r \<and> r \<le> 10"
    by blast
  from C6_clamped_value_saturates [of 3 evaluate_sample "''x^2''"] m2
  have d: "\<exists>r. pz (MathSurface evaluate_sample ''x^2'' 3 Mode3d ! 1) = Fin r \<and> - 10 \<le> r \<and> r \<le> 10"
    by blast
  from a b c d h1 h2 l3 m1 m2 show ?thesis by simp
qed

text \<open>
  C7. For every resolution \<open>n \<ge> 2\<close> the curve has exactly \<open>n\<close> vertices, vertex
  \<open>i\<close> at \<open>x = -6 + (i/(n-1)) * 12\<close>, the first at \<open>-6\<close> and the last at
  \<open>6\<close>. The surface has exactly \<open>n * n\<close> vertices in row-major order: the vertex
  at row \<open>r\<close> and column \<open>c\<close> has index \<open>r * n + c\<close>, its \<open>x\<close> grows with the
  column from \<open>-6\<close> to \<open>6\<close> and its \<open>y\<close> falls with the row from \<open>6\<close> to
  \<open>-6\<close>; every vertex lies in \<open>[-6,6] \<times> [-6,6]\<close> and two opposite corners are
  vertices. The surface half rests on the grid of \<open>PlaneGeometry\<close> as modelled above.
\<close>

theorem C7_vertex_counts_and_span:
  assumes "2 \<le> n"
  shows "length (MathSurface ev eq n Mode2d) = n
   \<and> (\<forall>i<n. px (MathSurface ev eq n Mode2d ! i) = Fin (- 6 + (real i / (real n - 1)) * 12))
   \<and> px (MathSurface ev eq n Mode2d ! 0) = Fin (- 6)
   \<and> px (MathSurface ev eq n Mode2d ! (n - 1)) = Fin 6
   \<and> length (MathSurface ev eq n Mode3d) = n * n
   \<and> (\<forall>r<n. \<forall>c<n.
         px (MathSurface ev eq n Mode3d ! (r * n + c)) = Fin (- 6 + real c * (12 / (real n - 1)))
       \<and> py (MathSurface ev eq n Mode3d ! (r * n + c)) = Fin (6 - real r * (12 / (real n - 1))))
   \<and> (\<forall>v\<in>set (MathSurface ev eq n Mode3d).
         \<exists>a b. px v = Fin a \<and> py v = Fin b \<and> - 6 \<le> a \<and> a \<le> 6 \<and> - 6 \<le> b \<and> b \<le> 6)
   \<and> px (MathSurface ev eq n Mode3d ! 0) = Fin (- 6)
   \<and> py (MathSurface ev eq n Mode3d ! 0) = Fin 6
   \<and> px (MathSurface ev eq n Mode3d ! (n * n - 1)) = Fin 6
   \<and> py (MathSurface ev eq n Mode3d ! (n * n - 1)) = Fin (- 6)"
proof -
  from assms have nz: "real n - 1 \<noteq> 0" by simp
  have len2: "length (MathSurface ev eq n Mode2d) = n"
    by (simp add: MathSurface_def length_curve)
  have xs: "\<forall>i<n. px (MathSurface ev eq n Mode2d ! i) = Fin (- 6 + (real i / (real n - 1)) * 12)"
    using assms by (simp add: MathSurface_def nth_curve px_curve_vertex curve_x_Fin)
  from assms xs have first: "px (MathSurface ev eq n Mode2d ! 0) = Fin (- 6)"
    by simp
  from assms have pred: "n - 1 < n" by simp
  from assms have r1: "real (n - 1) = real n - 1" by simp
  from nz have one: "(real n - 1) / (real n - 1) = 1" by simp
  from xs pred have "px (MathSurface ev eq n Mode2d ! (n - 1)) = Fin (- 6 + (real (n - 1) / (real n - 1)) * 12)"
    by blast
  then have last: "px (MathSurface ev eq n Mode2d ! (n - 1)) = Fin 6"
    by (simp only: r1 one) simp
  have len3: "length (MathSurface ev eq n Mode3d) = n * n"
    using assms by (simp add: MathSurface_def surface_def length_surface_of grid_length)
  have cell: "px (MathSurface ev eq n Mode3d ! (r * n + c)) = Fin (- 6 + real c * (12 / (real n - 1)))
       \<and> py (MathSurface ev eq n Mode3d ! (r * n + c)) = Fin (6 - real r * (12 / (real n - 1)))"
    if "r < n" "c < n" for r c
  proof -
    from that have "r * n + c < n * n"
      by (metis add.commute less_le_trans mult.commute mult_Suc_right mult_le_mono1
          nat_add_left_cancel_less Suc_leI)
    then have "r * n + c < length (grid n)" using assms by (simp add: grid_length)
    then show ?thesis
      using assms that
      by (simp add: MathSurface_def surface_def pxy_surface_of grid_nth)
  qed
  have span: "\<exists>a b. px v = Fin a \<and> py v = Fin b \<and> - 6 \<le> a \<and> a \<le> 6 \<and> - 6 \<le> b \<and> b \<le> 6"
    if "v \<in> set (MathSurface ev eq n Mode3d)" for v
  proof -
    from that obtain k where k: "k < length (grid n)" and v: "v = surface_of ev eq (grid n) ! k"
      by (auto simp: MathSurface_def surface_def in_set_conv_nth length_surface_of)
    from k have "grid n ! k \<in> set (grid n)" by simp
    then obtain r c where rc: "r < n" "c < n"
      and g: "grid n ! k = (Fin (real c * (12 / (real n - 1)) - 6), Fin (6 - real r * (12 / (real n - 1))))"
      using assms by (auto simp: grid_rows)
    from step_range [OF assms rc(1)] step_range [OF assms rc(2)] k g show ?thesis
      by (simp add: v pxy_surface_of)
  qed
  from assms have zero: "0 < n" by simp
  from cell [OF zero zero]
  have c0: "px (MathSurface ev eq n Mode3d ! 0) = Fin (- 6) \<and> py (MathSurface ev eq n Mode3d ! 0) = Fin 6"
    by simp
  from assms have idx: "(n - 1) * n + (n - 1) = n * n - 1"
    by (simp add: algebra_simps diff_mult_distrib)
  have "d * (12 / d) = 12" if "d \<noteq> 0" for d :: real
    using that by simp
  from this [OF nz] have twelve: "(real n - 1) * (12 / (real n - 1)) = 12" .
  from cell [OF pred pred]
  have c1: "px (MathSurface ev eq n Mode3d ! (n * n - 1)) = Fin 6
      \<and> py (MathSurface ev eq n Mode3d ! (n * n - 1)) = Fin (- 6)"
    by (simp only: idx r1 twelve) simp
  from len2 xs first last len3 cell span c0 c1 show ?thesis by blast
qed

theorem C7_vertex_counts_and_span_witness:
  "(2::nat) \<le> 5
   \<and> length (MathSurface evaluate_sample ''x^2'' 5 Mode2d) = 5
   \<and> map px (MathSurface evaluate_sample ''x^2'' 5 Mode2d) = [Fin (- 6), Fin (- 3), Fin 0, Fin 3, Fin 6]
   \<and> px (MathSurface evaluate_sample ''x^2'' 5 Mode2d ! 3) = Fin (- 6 + (real 3 / (real 5 - 1)) * 12)
   \<and> length (MathSurface evaluate_sample ''x^2'' 5 Mode3d) = 5 * 5
   \<and> px (MathSurface evaluate_sample ''x^2'' 5 Mode3d ! (1 * 5 + 3)) = Fin 3
   \<and> py (MathSurface evaluate_sample ''x^2'' 5 Mode3d ! (1 * 5 + 3)) = Fin 3
   \<and> px (MathSurface evaluate_sample ''x^2'' 5 Mode3d ! 24) = Fin 6
   \<and> py (MathSurface evaluate_sample ''x^2'' 5 Mode3d ! 24) = Fin (- 6)"
proof -
  have h: "(2::nat) \<le> 5" by simp
  note t = C7_vertex_counts_and_span [OF h, of evaluate_sample "''x^2''"]
  have xs: "map px (MathSurface evaluate_sample ''x^2'' 5 Mode2d) = [Fin (- 6), Fin (- 3), Fin 0, Fin 3, Fin 6]"
    by (simp add: MathSurface_def curve_def px_curve_vertex upt_rec[of _ "numeral _"] upt_rec[of 0])
       (simp add: curve_x_def size_const_def)
  from t have a: "px (MathSurface evaluate_sample ''x^2'' 5 Mode2d ! 3) = Fin (- 6 + (real 3 / (real 5 - 1)) * 12)"
    by simp
  from t have b: "length (MathSurface evaluate_sample ''x^2'' 5 Mode2d) = 5
     \<and> length (MathSurface evaluate_sample ''x^2'' 5 Mode3d) = 5 * 5" by simp
  from t have cells: "\<forall>r<5. \<forall>c<5. px (MathSurface evaluate_sample ''x^2'' 5 Mode3d ! (r * 5 + c)) = Fin (- 6 + real c * (12 / (real 5 - 1)))
       \<and> py (MathSurface evaluate_sample ''x^2'' 5 Mode3d ! (r * 5 + c)) = Fin (6 - real r * (12 / (real 5 - 1)))"
    by simp
  from cells [rule_format, of 1 3]
  have "px (MathSurface evaluate_sample ''x^2'' 5 Mode3d ! (1 * 5 + 3)) = Fin (- 6 + real 3 * (12 / (real 5 - 1)))
       \<and> py (MathSurface evaluate_sample ''x^2'' 5 Mode3d ! (1 * 5 + 3)) = Fin (6 - real 1 * (12 / (real 5 - 1)))"
    by simp
  then have c: "px (MathSurface evaluate_sample ''x^2'' 5 Mode3d ! (1 * 5 + 3)) = Fin 3
      \<and> py (MathSurface evaluate_sample ''x^2'' 5 Mode3d ! (1 * 5 + 3)) = Fin 3"
    by simp
  from t have d: "px (MathSurface evaluate_sample ''x^2'' 5 Mode3d ! 24) = Fin 6
     \<and> py (MathSurface evaluate_sample ''x^2'' 5 Mode3d ! 24) = Fin (- 6)"
    by simp
  from h xs a b c d show ?thesis by simp
qed

text \<open>
  C8. A surface vertex whose normalised height is the number \<open>t\<close> has the color of the
  three bands with the literal constants: below \<open>0.33\<close>, with \<open>u = t / 0.33\<close>, the color
  \<open>(0.4 u, 0.4 + 0.6 u, 0.9)\<close>; below \<open>0.66\<close>, with \<open>u = (t - 0.33) / 0.33\<close>, the
  color \<open>(0.4 + 0.5 u, 0.9, 0.9 - 0.6 u)\<close>; otherwise, with \<open>u = (t - 0.66) / 0.34\<close>,
  the color \<open>(0.9, 0.9 - 0.6 u, 0.3 - 0.2 u)\<close>. The normalised height is computed from
  the vertex's \<open>z\<close> and the bounds left by the first loop.
\<close>

theorem C8_surface_color_bands:
  "\<forall>k<length (grid n). \<forall>t.
     normalizedHeight (minZ (sample_loop ev eq (grid n) sampling_init))
       (maxZ (sample_loop ev eq (grid n) sampling_init))
       (pz (MathSurface ev eq n Mode3d ! k)) = Fin t \<longrightarrow>
     (cr (MathSurface ev eq n Mode3d ! k), cg (MathSurface ev eq n Mode3d ! k),
      cb (MathSurface ev eq n Mode3d ! k))
     = (if t < 0.33 then
          (Fin (0.4 * (t / 0.33)), Fin (0.4 + 0.6 * (t / 0.33)), Fin 0.9)
        else if t < 0.66 then
          (Fin (0.4 + 0.5 * ((t - 0.33) / 0.33)), Fin 0.9, Fin (0.9 - 0.6 * ((t - 0.33) / 0.33)))
        else
          (Fin 0.9, Fin (0.9 - 0.6 * ((t - 0.66) / 0.34)), Fin (0.3 - 0.2 * ((t - 0.66) / 0.34))))"
proof (intro allI impI)
  fix k t
  assume k: "k < length (grid n)"
    and t: "normalizedHeight (minZ (sample_loop ev eq (grid n) sampling_init))
       (maxZ (sample_loop ev eq (grid n) sampling_init))
       (pz (MathSurface ev eq n Mode3d ! k)) = Fin t"
  have m: "MathSurface ev eq n Mode3d = surface_of ev eq (grid n)"
    by (simp add: MathSurface_def surface_def)
  from surface_vertex_color [OF k, of ev eq] t
  have "(cr (MathSurface ev eq n Mode3d ! k), cg (MathSurface ev eq n Mode3d ! k),
      cb (MathSurface ev eq n Mode3d ! k)) = height_color (Fin t)"
    by (simp only: m)
  then show "(cr (MathSurface ev eq n Mode3d ! k), cg (MathSurface ev eq n Mode3d ! k),
      cb (MathSurface ev eq n Mode3d ! k))
     = (if t < 0.33 then
          (Fin (0.4 * (t / 0.33)), Fin (0.4 + 0.6 * (t / 0.33)), Fin 0.9)
        else if t < 0.66 then
          (Fin (0.4 + 0.5 * ((t - 0.33) / 0.33)), Fin 0.9, Fin (0.9 - 0.6 * ((t - 0.33) / 0.33)))
        else
          (Fin 0.9, Fin (0.9 - 0.6 * ((t - 0.66) / 0.34)), Fin (0.3 - 0.2 * ((t - 0.66) / 0.34))))"
    by (simp only: height_color_Fin)
qed

theorem C8_surface_color_bands_witness:
  "(0::nat) < length (grid 3) \<and> (1::nat) < length (grid 3)
   \<and> normalizedHeight (minZ (sample_loop evaluate_sample ''x^2'' (grid 3) sampling_init))
       (maxZ (sample_loop evaluate_sample ''x^2'' (grid 3) sampling_init))
       (pz (MathSurface evaluate_sample ''x^2'' 3 Mode3d ! 0)) = Fin 1
   \<and> (cr (MathSurface evaluate_sample ''x^2'' 3 Mode3d ! 0),
       cg (MathSurface evaluate_sample ''x^2'' 3 Mode3d ! 0),
       cb (MathSurface evaluate_sample ''x^2'' 3 Mode3d ! 0)) = (Fin (9 / 10), Fin (3 / 10), Fin (1 / 10))
   \<and> normalizedHeight (minZ (sample_loop evaluate_sample ''x^2'' (grid 3) sampling_init))
       (maxZ (sample_loop evaluate_sample ''x^2'' (grid 3) sampling_init))
       (pz (MathSurface evaluate_sample ''x^2'' 3 Mode3d ! 1)) = Fin 0
   \<and> (cr (MathSurface evaluate_sample ''x^2'' 3 Mode3d ! 1),
       cg (MathSurface evaluate_sample ''x^2'' 3 Mode3d ! 1),
       cb (MathSurface evaluate_sample ''x^2'' 3 Mode3d ! 1)) = (Fin 0, Fin (2 / 5), Fin (9 / 10))
   \<and> normalizedHeight (minZ (sample_loop evaluate_sample ''x > 0 ? 1 : q'' (grid 3) sampling_init))
       (maxZ (sample_loop evaluate_sample ''x > 0 ? 1 : q'' (grid 3) sampling_init))
       (pz (MathSurface evaluate_sample ''x > 0 ? 1 : q'' 3 Mode3d ! 0)) = Fin (1 / 2)
   \<and> (cr (MathSurface evaluate_sample ''x > 0 ? 1 : q'' 3 Mode3d ! 0),
       cg (MathSurface evaluate_sample ''x > 0 ? 1 : q'' 3 Mode3d ! 0),
       cb (MathSurface evaluate_sample ''x > 0 ? 1 : q'' 3 Mode3d ! 0))
       = (Fin (217 / 330), Fin (9 / 10), Fin (13 / 22))"
proof -
  have g3: "grid 3 = [(Fin (- 6), Fin 6), (Fin 0, Fin 6), (Fin 6, Fin 6), (Fin (- 6), Fin 0),
      (Fin 0, Fin 0), (Fin 6, Fin 0), (Fin (- 6), Fin (- 6)), (Fin 0, Fin (- 6)), (Fin 6, Fin (- 6))]"
    by (simp add: run_defs upt_rec[of _ "numeral _"] upt_rec[of 0])
  have len: "(0::nat) < length (grid 3) \<and> (1::nat) < length (grid 3)"
    by (simp add: g3)
  have sq: "minZ (sample_loop evaluate_sample ''x^2'' (grid 3) sampling_init) = Fin 0
      \<and> maxZ (sample_loop evaluate_sample ''x^2'' (grid 3) sampling_init) = Fin 10"
    by (simp add: g3) (simp add: run_defs)
  have st: "minZ (sample_loop evaluate_sample ''x > 0 ? 1 : q'' (grid 3) sampling_init) = Fin 1
      \<and> maxZ (sample_loop evaluate_sample ''x > 0 ? 1 : q'' (grid 3) sampling_init) = Fin 1"
    by (simp add: g3) (simp add: run_defs)
  have z0: "pz (MathSurface evaluate_sample ''x^2'' 3 Mode3d ! 0) = Fin 10"
    by (simp add: MathSurface_def surface_def pz_surface_of g3 sample_value_def) (simp add: run_defs)
  have z1: "pz (MathSurface evaluate_sample ''x^2'' 3 Mode3d ! 1) = Fin 0"
    by (simp add: MathSurface_def surface_def pz_surface_of g3 sample_value_def) (simp add: run_defs)
  have z2: "pz (MathSurface evaluate_sample ''x > 0 ? 1 : q'' 3 Mode3d ! 0) = Fin 0"
    by (simp add: MathSurface_def surface_def pz_surface_of g3 sample_value_def) (simp add: run_defs)
  have h0: "normalizedHeight (minZ (sample_loop evaluate_sample ''x^2'' (grid 3) sampling_init))
       (maxZ (sample_loop evaluate_sample ''x^2'' (grid 3) sampling_init))
       (pz (MathSurface evaluate_sample ''x^2'' 3 Mode3d ! 0)) = Fin 1"
    by (simp only: sq z0) (simp add: normalizedHeight_def js_strict_neq_def js_sub_def)
  have h1: "normalizedHeight (minZ (sample_loop evaluate_sample ''x^2'' (grid 3) sampling_init))
       (maxZ (sample_loop evaluate_sample ''x^2'' (grid 3) sampling_init))
       (pz (MathSurface evaluate_sample ''x^2'' 3 Mode3d ! 1)) = Fin 0"
    by (simp only: sq z1) (simp add: normalizedHeight_def js_strict_neq_def js_sub_def)
  have h2: "normalizedHeight (minZ (sample_loop evaluate_sample ''x > 0 ? 1 : q'' (grid 3) sampling_init))
       (maxZ (sample_loop evaluate_sample ''x > 0 ? 1 : q'' (grid 3) sampling_init))
       (pz (MathSurface evaluate_sample ''x > 0 ? 1 : q'' 3 Mode3d ! 0)) = Fin (1 / 2)"
    by (simp only: st z2) (simp add: normalizedHeight_def js_strict_neq_def js_sub_def)
  note t = C8_surface_color_bands [rule_format]
  from t [of 0 3 evaluate_sample "''x^2''" 1, OF _ h0] len
  have c0: "(cr (MathSurface evaluate_sample ''x^2'' 3 Mode3d ! 0),
       cg (MathSurface evaluate_sample ''x^2'' 3 Mode3d ! 0),
       cb (MathSurface evaluate_sample ''x^2'' 3 Mode3d ! 0)) = (Fin (9 / 10), Fin (3 / 10), Fin (1 / 10))"
    by simp
  from t [of 1 3 evaluate_sample "''x^2''" 0, OF _ h1] len
  have c1: "(cr (MathSurface evaluate_sample ''x^2'' 3 Mode3d ! 1),
       cg (MathSurface evaluate_sample ''x^2'' 3 Mode3d ! 1),
       cb (MathSurface evaluate_sample ''x^2'' 3 Mode3d ! 1)) = (Fin 0, Fin (2 / 5), Fin (9 / 10))"
    by simp
  from t [of 0 3 evaluate_sample "''x > 0 ? 1 : q''" "1 / 2", OF _ h2] len
  have c2: "(cr (MathSurface evaluate_sample ''x > 0 ? 1 : q'' 3 Mode3d ! 0),
       cg (MathSurface evaluate_sample ''x > 0 ? 1 : q'' 3 Mode3d ! 0),
       cb (MathSurface evaluate_sample ''x > 0 ? 1 : q'' 3 Mode3d ! 0))
       = (Fin (217 / 330), Fin (9 / 10), Fin (13 / 22))"
    by simp
  from len h0 h1 h2 c0 c1 c2 show ?thesis by simp
qed

text \<open>
  C9. \<^verbatim>\<open>handleEquationUpdate\<close> evaluates the input once, at \<open>x = 1\<close> for a curve and at
  \<open>x = 1, y = 1\<close> for a surface. If that evaluation throws, the equation, the mode and the
  resolution stay as they were, hence also the geometry shown, and the error message
  \<^verbatim>\<open>Invalid equation syntax\<close> is set. The equation changes only if the evaluation
  returned; then the input becomes the equation and the message is cleared.
\<close>

theorem C9_commit_needs_successful_trial:
  "(mode s = Mode2d \<longrightarrow> trial ev s = ev (inputValue s) (scope2d (Fin 1)))
   \<and> (mode s = Mode3d \<longrightarrow> trial ev s = ev (inputValue s) (scope3d (Fin 1) (Fin 1)))
   \<and> (trial ev s = Throws \<longrightarrow>
         equation (handleEquationUpdate ev s) = equation s
       \<and> mode (handleEquationUpdate ev s) = mode s
       \<and> resolution (handleEquationUpdate ev s) = resolution s
       \<and> rendered ev (handleEquationUpdate ev s) = rendered ev s
       \<and> error (handleEquationUpdate ev s) = ''Invalid equation syntax'')
   \<and> (equation (handleEquationUpdate ev s) \<noteq> equation s \<longrightarrow> (\<exists>v. trial ev s = Returns v))
   \<and> (\<forall>v. trial ev s = Returns v \<longrightarrow>
         equation (handleEquationUpdate ev s) = inputValue s
       \<and> error (handleEquationUpdate ev s) = [])"
proof (intro conjI impI allI)
  show "trial ev s = ev (inputValue s) (scope2d (Fin 1))" if "mode s = Mode2d"
    using that by (simp add: trial_def scope2d_def)
  show "trial ev s = ev (inputValue s) (scope3d (Fin 1) (Fin 1))" if "mode s = Mode3d"
    using that by (simp add: trial_def scope3d_def)
  show "\<exists>v. trial ev s = Returns v" if "equation (handleEquationUpdate ev s) \<noteq> equation s"
    using that by (cases "trial ev s") (simp_all add: handleEquationUpdate_def)
qed (simp_all add: handleEquationUpdate_def rendered_def)

theorem C9_commit_needs_successful_trial_witness:
  "mode \<lparr> mode = Mode2d, equation = ''x^2'', inputValue = ''sin(x'', resolution = 80,
           error = [], showInfo = False \<rparr> = Mode2d
   \<and> trial evaluate_sample \<lparr> mode = Mode2d, equation = ''x^2'', inputValue = ''sin(x'',
           resolution = 80, error = [], showInfo = False \<rparr> = Throws
   \<and> handleEquationUpdate evaluate_sample \<lparr> mode = Mode2d, equation = ''x^2'',
           inputValue = ''sin(x'', resolution = 80, error = [], showInfo = False \<rparr>
       = \<lparr> mode = Mode2d, equation = ''x^2'', inputValue = ''sin(x'', resolution = 80,
           error = ''Invalid equation syntax'', showInfo = False \<rparr>
   \<and> mode \<lparr> mode = Mode3d, equation = ''x > 0 ? 1 : q'', inputValue = ''x^2'', resolution = 80,
           error = ''Invalid equation syntax'', showInfo = False \<rparr> = Mode3d
   \<and> trial evaluate_sample \<lparr> mode = Mode3d, equation = ''x > 0 ? 1 : q'', inputValue = ''x^2'',
           resolution = 80, error = ''Invalid equation syntax'', showInfo = False \<rparr> = Returns (Fin 1)
   \<and> equation (handleEquationUpdate evaluate_sample \<lparr> mode = Mode3d, equation = ''x > 0 ? 1 : q'',
           inputValue = ''x^2'', resolution = 80, error = ''Invalid equation syntax'',
           showInfo = False \<rparr>) \<noteq> ''x > 0 ? 1 : q''
   \<and> equation (handleEquationUpdate evaluate_sample \<lparr> mode = Mode3d, equation = ''x > 0 ? 1 : q'',
           inputValue = ''x^2'', resolution = 80, error = ''Invalid equation syntax'',
           showInfo = False \<rparr>) = ''x^2''
   \<and> error (handleEquationUpdate evaluate_sample \<lparr> mode = Mode3d, equation = ''x > 0 ? 1 : q'',
           inputValue = ''x^2'', resolution = 80, error = ''Invalid equation syntax'',
           showInfo = False \<rparr>) = []"
proof -
  let ?a = "\<lparr> mode = Mode2d, equation = ''x^2'', inputValue = ''sin(x'', resolution = 80,
           error = [], showInfo = False \<rparr>"
  let ?b = "\<lparr> mode = Mode3d, equation = ''x > 0 ? 1 : q'', inputValue = ''x^2'', resolution = 80,
           error = ''Invalid equation syntax'', showInfo = False \<rparr>"
  have ta: "trial evaluate_sample ?a = Throws"
    by (simp add: trial_def evaluate_sample_def)
  have tb: "trial evaluate_sample ?b = Returns (Fin 1)"
    by (simp add: trial_def evaluate_sample_def lookup_x_def)
  from C9_commit_needs_successful_trial [of ?a evaluate_sample] ta
  have "equation (handleEquationUpdate evaluate_sample ?a) = ''x^2''
      \<and> error (handleEquationUpdate evaluate_sample ?a) = ''Invalid equation syntax''"
    by simp
  moreover have "handleEquationUpdate evaluate_sample ?a = ?a \<lparr> error := ''Invalid equation syntax'' \<rparr>"
    by (simp add: handleEquationUpdate_def ta)
  ultimately have ra: "handleEquationUpdate evaluate_sample ?a
       = \<lparr> mode = Mode2d, equation = ''x^2'', inputValue = ''sin(x'', resolution = 80,
           error = ''Invalid equation syntax'', showInfo = False \<rparr>"
    by simp
  from C9_commit_needs_successful_trial [of ?b evaluate_sample] tb
  have rb: "equation (handleEquationUpdate evaluate_sample ?b) = ''x^2''
      \<and> error (handleEquationUpdate evaluate_sample ?b) = []"
    by simp
  from ta tb ra rb show ?thesis by simp
qed

text \<open>
  C10. \<^verbatim>\<open>handlePresetSelect\<close> makes the preset both the input and the equation and
  clears the error message, whatever they were before; the mode and the resolution stay,
  and the geometry shown is that of the preset. No evaluation takes place (the function
  takes no evaluator): an expression on which the trial evaluation of
  \<^verbatim>\<open>handleEquationUpdate\<close> throws, such as \<^verbatim>\<open>sin(x\<close>, is installed all the same.
\<close>

theorem C10_preset_installed_without_trial:
  "equation (handlePresetSelect p s) = p
   \<and> inputValue (handlePresetSelect p s) = p
   \<and> error (handlePresetSelect p s) = []
   \<and> mode (handlePresetSelect p s) = mode s
   \<and> resolution (handlePresetSelect p s) = resolution s
   \<and> rendered ev (handlePresetSelect p s) = MathSurface ev p (resolution s) (mode s)
   \<and> trial evaluate_sample (s \<lparr> inputValue := ''sin(x'' \<rparr>) = Throws
   \<and> equation (handleEquationUpdate evaluate_sample (s \<lparr> inputValue := ''sin(x'' \<rparr>)) = equation s
   \<and> equation (handlePresetSelect ''sin(x'' s) = ''sin(x''"
  by (simp add: handlePresetSelect_def rendered_def handleEquationUpdate_def trial_def
      evaluate_sample_def)

end
